theory Spec2Isabelle
  imports Complex_Main "HOL-Library.Log_Nat" "HOL-Library.AList"
begin

section \<open>JavaScript values\<close>

text \<open>
  The leaves of the JSON documents handled by \<^verbatim>\<open>backend/server.js\<close>. \<open>JUndefined\<close> is what
  reading a property that is absent yields; \<open>JTime\<close> is a Firestore \<^verbatim>\<open>Timestamp\<close> object
  (the value of \<^verbatim>\<open>getTimestamp()\<close>), identified by the instant it holds.
\<close>

datatype jsval = JUndefined | JNull | JBool bool | JNum rat | JStr string | JTime nat

text \<open>The truthiness used by \<^verbatim>\<open>!x\<close>, \<^verbatim>\<open>x || y\<close>, \<^verbatim>\<open>x && y\<close> and by \<^verbatim>\<open>filter\<close>.\<close>

fun truthy :: "jsval \<Rightarrow> bool" where
  "truthy JUndefined = False"
| "truthy JNull = False"
| "truthy (JBool b) = b"
| "truthy (JNum n) = (n \<noteq> 0)"
| "truthy (JStr s) = (s \<noteq> [])"
| "truthy (JTime t) = True"

text \<open>\<^verbatim>\<open>x || d\<close> on values.\<close>

definition js_or :: "jsval \<Rightarrow> jsval \<Rightarrow> jsval" where
  "js_or x d = (if truthy x then x else d)"

section \<open>Numbers: binary64 arithmetic and \<^verbatim>\<open>Math.round\<close>\<close>

text \<open>
  A JavaScript number is an IEEE 754 binary64 value; \<^verbatim>\<open>/\<close> and \<^verbatim>\<open>*\<close> return the exact
  result rounded to the nearest value with a 53-bit significand, ties to the even
  significand. The counts divided here are array lengths and loop counters (below
  \<open>2 ^ 32\<close>), so every quotient and product lies in the normal range and neither overflow
  nor subnormal numbers arise; integers of that size are represented exactly.

  \<open>binade x\<close> is the exponent \<open>e\<close> with \<open>2 ^ e \<le> x < 2 ^ (e + 1)\<close> for positive \<open>x\<close>,
  computed from the bit lengths of numerator and denominator.
\<close>

definition binade :: "rat \<Rightarrow> int" where
  "binade x = (let (a, b) = quotient_of x; k = bitlen a - bitlen b
               in if 2 powi k \<le> x then k else k - 1)"

definition roundTiesToEven :: "rat \<Rightarrow> int" where
  "roundTiesToEven y =
     (let f = \<lfloor>y\<rfloor>; r = y - of_int f
      in if r < 1 / 2 then f else if 1 / 2 < r then f + 1 else if even f then f else f + 1)"

text \<open>The binary64 value nearest to a non-negative rational.\<close>

definition fl :: "rat \<Rightarrow> rat" where
  "fl x = (if x = 0 then 0
           else let u = 2 powi (binade x - 52) in of_int (roundTiesToEven (x / u)) * u)"

definition js_div :: "rat \<Rightarrow> rat \<Rightarrow> rat" where
  "js_div x y = fl (x / y)"

definition js_mul :: "rat \<Rightarrow> rat \<Rightarrow> rat" where
  "js_mul x y = fl (x * y)"

text \<open>
  \<^verbatim>\<open>Math.round(x)\<close>: the integer nearest to \<open>x\<close>, the larger one when two are equally
  near.
\<close>

definition Math_round :: "rat \<Rightarrow> int" where
  "Math_round x = \<lfloor>x + 1 / 2\<rfloor>"

section \<open>The aggregate computation\<close>

text \<open>
  \<^verbatim>\<open>totalExpectedControls === 0 ? 0 : Math.round((completedControlsCount / totalExpectedControls) * 100)\<close>
  (lines 326 and 478).
\<close>

definition overallProgress :: "nat \<Rightarrow> nat \<Rightarrow> nat" where
  "overallProgress completedCount totalExpectedControls =
     (if totalExpectedControls = 0 then 0
      else nat (Math_round
             (js_mul (js_div (of_nat completedCount) (of_nat totalExpectedControls)) 100)))"

text \<open>
  \<^verbatim>\<open>overallProgress === 100 ? 'Completed' : (overallProgress > 0 ? 'In Progress' : 'Not Started')\<close>
  (lines 327 and 479).
\<close>

definition overallStatus :: "nat \<Rightarrow> string" where
  "overallStatus p =
     (if p = 100 then ''Completed'' else if p > 0 then ''In Progress'' else ''Not Started'')"

text \<open>
  The percentage as the specification words it: \<open>100 * completedCount / totalExpectedControls\<close>
  taken exactly and rounded half away from zero.
\<close>

definition round_half_away :: "rat \<Rightarrow> int" where
  "round_half_away x = (if 0 \<le> x then \<lfloor>x + 1 / 2\<rfloor> else \<lceil>x - 1 / 2\<rceil>)"

definition spec_overallProgress :: "nat \<Rightarrow> nat \<Rightarrow> nat" where
  "spec_overallProgress completedCount totalExpectedControls =
     (if totalExpectedControls = 0 then 0
      else nat (round_half_away (100 * of_nat completedCount / of_nat totalExpectedControls)))"

section \<open>Documents\<close>

text \<open>
  The Firestore documents the handlers read and write. Fields that the handlers only copy
  through are client-provided JSON leaves; fields that the handlers compute have the type
  of what is computed.
\<close>

record question =
  question_text :: string
  options :: "(string \<times> string) list"

text \<open>A control definition; \<open>questionnaires\<close> is \<open>None\<close> when the field is absent.\<close>

record control =
  framework_id :: string
  questionnaires :: "question list option"

record question_response =
  question_index :: nat
  qr_question_text :: string
  selected_option :: jsval
  option_text :: jsval

text \<open>
  A response document. \<open>summary_fields\<close> are the fields \<^verbatim>\<open>overall_score\<close>,
  \<^verbatim>\<open>overall_status\<close>, \<^verbatim>\<open>completed_controls_in_audit\<close> and \<^verbatim>\<open>updated_at\<close>, in this order:
  a response document has them only after \<^verbatim>\<open>PUT /api/audits/:id/responses\<close> was called
  with an id that addresses it in the place of an audit (see that handler), and
  \<open>summary_fields\<close> is \<open>None\<close> when it does not have them.
\<close>

record response =
  control_id :: string
  question_responses :: "question_response list"
  compliance_status :: jsval
  justification_text :: jsval
  maturity_level_selected :: jsval
  evidence_path :: jsval
  evidence_filename :: jsval
  ai_recommendation :: jsval
  response_date :: jsval
  summary_fields :: "(nat \<times> string \<times> nat \<times> nat) option"

record audit =
  title :: jsval
  description :: jsval
  user_id :: jsval
  domain_type :: jsval
  frameworks_audited :: "string list"
  overall_status :: string
  overall_score :: nat
  created_at :: nat
  updated_at :: nat
  total_controls_in_audit :: nat
  completed_controls_in_audit :: nat
  client_company_name :: jsval
  client_spoc_name :: jsval
  client_spoc_email :: jsval
  client_spoc_phone :: jsval

section \<open>The document store\<close>

text \<open>
  Each collection is an association list from document id to document; the order of the
  list stands for the order in which the store returns the documents, and no property
  below depends on it. A write to an id that exists replaces the document, a write to a
  new id adds it (\<open>AList.update\<close>). \<open>frameworks\<close> maps a framework id to its
  \<^verbatim>\<open>type\<close>. A document id is one path segment: a non-empty string without a slash.

  The documents below the \<^verbatim>\<open>responses\<close> sub-collections of all audits are kept in one
  list. The key of a document is the id of the audit and the path of the document relative
  to that audit's \<^verbatim>\<open>responses\<close> collection, its segments joined by slashes. A key of one
  segment is a document of the collection itself, keyed by (audit id, control id); a key of
  several segments is a document of a collection nested below one of those documents, which
  \<^verbatim>\<open>PUT /api/audits/:id/responses\<close> creates when the \<^verbatim>\<open>control_id\<close> of the request is a path
  of several segments. In Firestore a sub-collection is addressed by its path and exists
  whether or not the parent document does.
\<close>

record store =
  frameworks :: "(string \<times> string) list"
  controls :: "(string \<times> control) list"
  audits :: "(string \<times> audit) list"
  responses :: "((string \<times> string) \<times> response) list"

text \<open>The HTTP failures the handlers answer with: 400, 404 and 500.\<close>

datatype http_error = BadRequest | NotFound | ServerError

section \<open>Document references\<close>

text \<open>
  \<^verbatim>\<open>collection.doc(p)\<close> takes a path relative to the collection. The client library throws
  when \<open>p\<close> is not a non-empty string or contains \<^verbatim>\<open>//\<close>; it splits \<open>p\<close> at the slashes and
  drops the empty segments (so a leading or a trailing slash is allowed), and throws when
  the segments do not end at a document, which below a collection is the case for an even
  number of segments and for none. One segment addresses a document of the collection
  itself, a longer path a document of a collection nested below it. What the store itself
  refuses beyond this (reserved names, over-long ids) is not part of the model. The
  reference of \<^verbatim>\<open>GET /api/audits/:id\<close> (line 280) is modelled for a document id, which
  addresses the audit of that id.

  \<open>path_segments\<close> is \<^verbatim>\<open>p.split('/').filter(segment => segment.length > 0)\<close>.
\<close>

definition path_segments :: "string \<Rightarrow> string list" where
  "path_segments p =
     filter (\<lambda>segment. segment \<noteq> [])
       (foldr (\<lambda>c acc. if c = CHR ''/'' then [] # acc
                        else (case acc of [] \<Rightarrow> [[c]] | segment # segments \<Rightarrow> (c # segment) # segments))
              p [[]])"

fun has_double_slash :: "string \<Rightarrow> bool" where
  "has_double_slash (a # b # cs) = ((a = CHR ''/'' \<and> b = CHR ''/'') \<or> has_double_slash (b # cs))"
| "has_double_slash cs = False"

text \<open>
  The segments of the document that \<^verbatim>\<open>doc(p)\<close> addresses below a collection, or \<open>None\<close> when
  the call throws. The collections the handlers call it on (\<^verbatim>\<open>audits\<close>, \<^verbatim>\<open>controls\<close>, and
  \<^verbatim>\<open>responses\<close> below a document) all have paths of an odd number of segments.
\<close>

definition doc_path :: "string \<Rightarrow> string list option" where
  "doc_path p =
     (if p = [] \<or> has_double_slash p then None
      else if odd (length (path_segments p)) then Some (path_segments p)
      else None)"

fun join_path :: "string list \<Rightarrow> string" where
  "join_path [] = []"
| "join_path [segment] = segment"
| "join_path (segment # next # segments) = segment @ ''/'' @ join_path (next # segments)"

text \<open>
  The key under which \<open>responses\<close> keeps the document at a path below \<^verbatim>\<open>audits\<close>: the path
  must run through the \<^verbatim>\<open>responses\<close> collection of an audit. The model has no document at
  any other path of more than one segment.
\<close>

definition response_key :: "string list \<Rightarrow> (string \<times> string) option" where
  "response_key path =
     (case path of
        a # collection # rest \<Rightarrow>
          if collection = ''responses'' \<and> rest \<noteq> [] then Some (a, join_path rest) else None
      | _ \<Rightarrow> None)"

definition response_at :: "store \<Rightarrow> string list \<Rightarrow> response option" where
  "response_at st path =
     (case response_key path of None \<Rightarrow> None | Some key \<Rightarrow> map_of (responses st) key)"

section \<open>Queries\<close>

text \<open>\<^verbatim>\<open>db.collection('frameworks').where('type', '==', t).get()\<close>, mapped to the ids.\<close>

definition frameworks_where_type :: "store \<Rightarrow> jsval \<Rightarrow> string list" where
  "frameworks_where_type st t = map fst (filter (\<lambda>(i, ty). JStr ty = t) (frameworks st))"

text \<open>
  \<^verbatim>\<open>db.collection('controls').where('framework_id', 'in', vs).get()\<close>. The store accepts
  between one and ten comparison values (the limit the comments at lines 123 and 797
  name) and rejects any other query; the rejection is caught by the handler's
  \<^verbatim>\<open>try\<close>/\<^verbatim>\<open>catch\<close> and answered with 500.
\<close>

definition in_query_limit :: nat where
  "in_query_limit = 10"

definition controls_where_framework_id_in ::
  "store \<Rightarrow> string list \<Rightarrow> http_error + (string \<times> control) list" where
  "controls_where_framework_id_in st vs =
     (if vs = [] \<or> in_query_limit < length vs then Inl ServerError
      else Inr (filter (\<lambda>(i, c). framework_id c \<in> set vs) (controls st)))"

text \<open>
  \<^verbatim>\<open>auditDocRef.collection('responses').get()\<close>: the documents of one audit's
  \<^verbatim>\<open>responses\<close> collection, which are those kept under a key of one segment.
\<close>

definition responses_of :: "store \<Rightarrow> string \<Rightarrow> (string \<times> response) list" where
  "responses_of st auditId =
     map (\<lambda>((aid, cid), r). (cid, r))
       (filter (\<lambda>((aid, cid), r). aid = auditId \<and> CHR ''/'' \<notin> set cid) (responses st))"

section \<open>Fetching the controls of a set of frameworks\<close>

text \<open>\<^verbatim>\<open>xs.slice(i, j)\<close> for \<open>0 \<le> i \<le> j\<close>.\<close>

definition slice :: "'a list \<Rightarrow> nat \<Rightarrow> nat \<Rightarrow> 'a list" where
  "slice xs i j = take (j - i) (drop i xs)"

definition chunkSize :: nat where
  "chunkSize = 10"

text \<open>
  The loop of lines 198--202 (again at 293--297, 450--454, 624--628 and 798--802):
  \<^verbatim>\<open>for (let i = 0; i < ids.length; i += chunkSize) { chunk = ids.slice(i, i + chunkSize); ... }\<close>
  with the documents of each chunk's query appended to the accumulator. Where the loop
  stands under \<^verbatim>\<open>if (ids.length > 0)\<close> (lines 291 and 448) the guard changes nothing: on
  an empty list the loop does not run.
\<close>

function allControlsLoop ::
  "store \<Rightarrow> string list \<Rightarrow> nat \<Rightarrow> (string \<times> control) list
     \<Rightarrow> http_error + (string \<times> control) list" where
  "allControlsLoop st ids i acc =
     (if i < length ids then
        (case controls_where_framework_id_in st (slice ids i (i + chunkSize)) of
           Inl e \<Rightarrow> Inl e
         | Inr docs \<Rightarrow> allControlsLoop st ids (i + chunkSize) (acc @ docs))
      else Inr acc)"
  by pat_completeness auto
termination
  by (relation "measure (\<lambda>(st, ids, i, acc). length ids - i)") (auto simp: chunkSize_def)

declare allControlsLoop.simps [simp del]

definition allControlsFor :: "store \<Rightarrow> string list \<Rightarrow> http_error + (string \<times> control) list" where
  "allControlsFor st ids = allControlsLoop st ids 0 []"

section \<open>Counting the completed controls\<close>

text \<open>
  \<^verbatim>\<open>new Map(allControlsForAudit.map(c => [c.id, c.data]))\<close>: of two entries with one key
  the later one stays.
\<close>

definition controlDefinitionsMap :: "(string \<times> control) list \<Rightarrow> string \<rightharpoonup> control" where
  "controlDefinitionsMap allControlsForAudit = map_of (rev allControlsForAudit)"

text \<open>
  The body of the \<^verbatim>\<open>if (controlDefinition)\<close> of lines 312--321 and 464--474: the test
  under which the counter is incremented.
\<close>

definition controlComplete :: "control \<Rightarrow> response \<Rightarrow> bool" where
  "controlComplete controlDefinition responseData =
     (let numQuestions = (case questionnaires controlDefinition of None \<Rightarrow> 0 | Some qs \<Rightarrow> length qs);
          allQuestionsAnswered =
            (numQuestions > 0 \<and>
             length (filter (\<lambda>qr. truthy (selected_option qr)) (question_responses responseData))
               = numQuestions);
          overallStatusSet =
            (compliance_status responseData
               \<in> set [JStr ''Yes'', JStr ''Partial'', JStr ''No'', JStr ''Not Applicable''])
      in allQuestionsAnswered \<and> overallStatusSet)"

text \<open>The pass over the response documents that increments \<^verbatim>\<open>completedControlsCount\<close>.\<close>

definition completedControlsCount ::
  "(string \<times> control) list \<Rightarrow> (string \<times> response) list \<Rightarrow> nat" where
  "completedControlsCount allControlsForAudit docs =
     fold (\<lambda>(docId, responseData) n.
             case controlDefinitionsMap allControlsForAudit (control_id responseData) of
               None \<Rightarrow> n
             | Some controlDefinition \<Rightarrow>
                 if controlComplete controlDefinition responseData then n + 1 else n)
          docs 0"

text \<open>
  The completeness predicate as the specification words it: every question has a
  selection that is not null (nor absent), and the verdict is one of the four terminal
  ones.
\<close>

definition spec_isComplete :: "control \<Rightarrow> response \<Rightarrow> bool" where
  "spec_isComplete c r =
     (let questionCount = (case questionnaires c of None \<Rightarrow> 0 | Some qs \<Rightarrow> length qs);
          answeredCount =
            length (filter (\<lambda>qr. selected_option qr \<noteq> JNull \<and> selected_option qr \<noteq> JUndefined)
                      (question_responses r))
      in questionCount > 0 \<and> answeredCount = questionCount
         \<and> compliance_status r
               \<in> set [JStr ''Yes'', JStr ''Partial'', JStr ''No'', JStr ''Not Applicable''])"

section \<open>GET /api/frameworks/:type/controls\<close>

definition get_type_controls :: "store \<Rightarrow> string \<Rightarrow> http_error + (string \<times> control) list" where
  "get_type_controls st type_param =
     (let frameworkIds = frameworks_where_type st (JStr type_param)
      in if length frameworkIds = 0 then Inr []
         else controls_where_framework_id_in st frameworkIds)"

section \<open>POST /api/audits\<close>


text \<open>
  \<^verbatim>\<open>(control.questionnaires || []).map((q, index) => ({question_index: index, ...}))\<close>
  (lines 230--235 and 363--368).
\<close>

definition initialQuestionResponses :: "question list option \<Rightarrow> question_response list" where
  "initialQuestionResponses qs =
     map (\<lambda>(index, q). \<lparr>question_index = index, qr_question_text = question_text q,
                         selected_option = JNull, option_text = JNull\<rparr>)
         (enumerate 0 (case qs of None \<Rightarrow> [] | Some l \<Rightarrow> l))"

definition initialResponseData :: "string \<times> control \<Rightarrow> response" where
  "initialResponseData c =
     \<lparr>control_id = fst c,
      question_responses = initialQuestionResponses (questionnaires (snd c)),
      compliance_status = JStr ''Not Answered'',
      justification_text = JNull,
      maturity_level_selected = JNull,
      evidence_path = JNull,
      evidence_filename = JNull,
      ai_recommendation = JNull,
      response_date = JNull,
      summary_fields = None\<rparr>"


section \<open>GET /api/audits/:id\<close>

text \<open>
  The reply is the audit's id, its data and its response documents. When the recomputed
  summary differs from the stored one, the three summary fields and \<^verbatim>\<open>updated_at\<close> are
  written, and the three summary fields (not \<^verbatim>\<open>updated_at\<close>) are patched in the reply.
\<close>

definition get_audit ::
  "store \<Rightarrow> string \<Rightarrow> nat
     \<Rightarrow> (http_error + string \<times> audit \<times> (string \<times> response) list) \<times> store" where
  "get_audit st auditId now =
     (case map_of (audits st) auditId of
        None \<Rightarrow> (Inl NotFound, st)
      | Some auditData \<Rightarrow>
          (case allControlsFor st (frameworks_audited auditData) of
             Inl e \<Rightarrow> (Inl e, st)
           | Inr allControlsForAudit \<Rightarrow>
               let totalExpectedControls = length allControlsForAudit;
                   docs = responses_of st auditId;
                   completedCount = completedControlsCount allControlsForAudit docs;
                   progress = overallProgress completedCount totalExpectedControls;
                   status = overallStatus progress
               in if overall_score auditData \<noteq> progress \<or> overall_status auditData \<noteq> status
                     \<or> completed_controls_in_audit auditData \<noteq> completedCount
                  then (Inr (auditId,
                             auditData\<lparr>overall_score := progress, overall_status := status,
                                       completed_controls_in_audit := completedCount\<rparr>,
                             docs),
                        st\<lparr>audits :=
                             AList.update auditId
                               (auditData\<lparr>overall_score := progress, overall_status := status,
                                          completed_controls_in_audit := completedCount,
                                          updated_at := now\<rparr>)
                               (audits st)\<rparr>)
                  else (Inr (auditId, auditData, docs), st)))"

section \<open>GET /api/audits/:auditId/responses/:controlId\<close>

text \<open>
  Line 355 builds the reference
  \<^verbatim>\<open>db.collection('audits').doc(auditId).collection('responses').doc(controlId)\<close> inside the
  \<^verbatim>\<open>try\<close>: when either \<^verbatim>\<open>doc\<close> throws, the request is answered with 500. The reply is the
  \<^verbatim>\<open>id\<close> property (the last segment of the document's path) and the response fields; the
  placeholder sent when no document exists has neither \<^verbatim>\<open>id\<close> nor \<^verbatim>\<open>response_date\<close>, and
  takes its questions from \<^verbatim>\<open>db.collection('controls').doc(controlId)\<close>, of which the model
  has a document only when \<^verbatim>\<open>controlId\<close> is one segment.
\<close>

definition get_response :: "store \<Rightarrow> string \<Rightarrow> string \<Rightarrow> http_error + jsval \<times> response" where
  "get_response st auditId controlId =
     (case doc_path auditId of
        None \<Rightarrow> Inl ServerError
      | Some auditPath \<Rightarrow>
          (case doc_path controlId of
             None \<Rightarrow> Inl ServerError
           | Some controlPath \<Rightarrow>
               (case response_at st (auditPath @ [''responses''] @ controlPath) of
                  None \<Rightarrow>
                    let controlDefData_questionnaires =
                          (case controlPath of
                             [c] \<Rightarrow> (case map_of (controls st) c of
                                       None \<Rightarrow> None
                                     | Some d \<Rightarrow> questionnaires d)
                           | _ \<Rightarrow> None)
                    in Inr (JUndefined,
                            \<lparr>control_id = controlId,
                             question_responses =
                               initialQuestionResponses controlDefData_questionnaires,
                             compliance_status = JStr ''Not Answered'',
                             justification_text = JStr [],
                             maturity_level_selected = JNull,
                             evidence_path = JNull,
                             evidence_filename = JNull,
                             ai_recommendation = JNull,
                             response_date = JUndefined,
                             summary_fields = None\<rparr>)
                | Some responseData \<Rightarrow> Inr (JStr (last controlPath), responseData))))"

section \<open>PUT /api/audits/:id/responses\<close>

text \<open>
  The request body. \<open>body_question_responses\<close> is \<open>None\<close> when the property is not an
  array; every other property is \<open>JUndefined\<close> when the body does not have it.
\<close>

record response_request =
  body_control_id :: jsval
  body_question_responses :: "question_response list option"
  body_compliance_status :: jsval
  body_justification_text :: jsval
  body_maturity_level_selected :: jsval
  body_evidence_path :: jsval
  body_evidence_filename :: jsval
  body_ai_recommendation :: jsval

text \<open>
  The document handed to \<^verbatim>\<open>batch.set(responseDocRef, {...}, { merge: true })\<close>
  (lines 415--425). It names every field of a response document, so merging it into
  an existing document replaces each of them.
\<close>

definition stagedResponse ::
  "string \<Rightarrow> question_response list \<Rightarrow> response_request \<Rightarrow> nat \<Rightarrow> response" where
  "stagedResponse cid qrs body now =
     \<lparr>control_id = cid,
      question_responses = qrs,
      compliance_status = js_or (body_compliance_status body) (JStr ''Not Answered''),
      justification_text = js_or (body_justification_text body) JNull,
      maturity_level_selected = js_or (body_maturity_level_selected body) JNull,
      evidence_path = js_or (body_evidence_path body) JNull,
      evidence_filename = js_or (body_evidence_filename body) JNull,
      ai_recommendation = js_or (body_ai_recommendation body) JNull,
      response_date = JTime now,
      summary_fields = None\<rparr>"

text \<open>
  \<^verbatim>\<open>set(ref, data, { merge: true })\<close> on the document \<open>existing\<close> (\<open>None\<close> when there is
  none): the fields that \<open>data\<close> names are written, the others are kept. The staged
  document names all fields but the summary fields.
\<close>

definition set_merge :: "response option \<Rightarrow> response \<Rightarrow> response" where
  "set_merge existing staged =
     (case existing of
        None \<Rightarrow> staged
      | Some d \<Rightarrow> staged\<lparr>summary_fields := summary_fields d\<rparr>)"

text \<open>
  After the validation of line 405 the handler builds the two references:
  \<^verbatim>\<open>db.collection('audits').doc(auditId)\<close> (line 410) and
  \<^verbatim>\<open>auditDocRef.collection('responses').doc(control_id)\<close> (line 411). When either \<^verbatim>\<open>doc\<close>
  throws (an id that addresses no document, or a \<^verbatim>\<open>control_id\<close> that is truthy but not a
  string) the request is answered with 500 before anything is read. Otherwise the
  handler stages the response write in a batch, reads the audit, the responses (as
  committed, so without the staged write) and the controls, stages the summary update
  and commits both writes together. The reply carries \<^verbatim>\<open>newOverallProgress\<close> and
  \<^verbatim>\<open>newOverallStatus\<close>. Lines 435--441 compute values that nothing uses; they read a
  property of each element of \<^verbatim>\<open>question_responses\<close>, which are objects in the model.

  An audit id of one segment addresses a document of \<^verbatim>\<open>audits\<close>. A longer one addresses a
  document below it, which exists only when it is a response document; the handler then
  reads that document in the place of the audit. It has neither \<^verbatim>\<open>total_controls_in_audit\<close>
  nor \<^verbatim>\<open>frameworks_audited\<close>, so \<^verbatim>\<open>totalExpectedControls\<close> is 0, no control is fetched and
  no response is counted; the response is written to the \<^verbatim>\<open>responses\<close> collection below
  that document, and the summary update (\<^verbatim>\<open>batch.update\<close>, lines 481--486) writes the
  summary fields onto that document.
\<close>

definition put_response ::
  "store \<Rightarrow> string \<Rightarrow> response_request \<Rightarrow> nat \<Rightarrow> (http_error + nat \<times> string) \<times> store" where
  "put_response st auditId body now =
     (case body_question_responses body of
        None \<Rightarrow> (Inl BadRequest, st)
      | Some qrs \<Rightarrow>
          if \<not> truthy (body_control_id body) then (Inl BadRequest, st)
          else
            (case doc_path auditId of
               None \<Rightarrow> (Inl ServerError, st)
             | Some auditPath \<Rightarrow>
                 (case body_control_id body of
                    JStr cid \<Rightarrow>
                      (case doc_path cid of
                         None \<Rightarrow> (Inl ServerError, st)
                       | Some controlPath \<Rightarrow>
                           (case auditPath of
                              [k] \<Rightarrow>
                                (case map_of (audits st) k of
                                   None \<Rightarrow> (Inl NotFound, st)
                                 | Some auditData \<Rightarrow>
                                     let totalExpectedControls = total_controls_in_audit auditData;
                                         allResponsesSnapshot = responses_of st k
                                     in (case allControlsFor st (frameworks_audited auditData) of
                                           Inl e \<Rightarrow> (Inl e, st)
                                         | Inr allControlsForAudit \<Rightarrow>
                                             let currentCompletedControlsCount =
                                                   completedControlsCount allControlsForAudit
                                                     allResponsesSnapshot;
                                                 newOverallProgress =
                                                   overallProgress currentCompletedControlsCount
                                                     totalExpectedControls;
                                                 newOverallStatus = overallStatus newOverallProgress;
                                                 responseKey = (k, join_path controlPath)
                                             in (Inr (newOverallProgress, newOverallStatus),
                                                 st\<lparr>responses :=
                                                      AList.update responseKey
                                                        (set_merge (map_of (responses st) responseKey)
                                                           (stagedResponse cid qrs body now))
                                                        (responses st),
                                                    audits :=
                                                      AList.update k
                                                        (auditData\<lparr>overall_score := newOverallProgress,
                                                                   overall_status := newOverallStatus,
                                                                   completed_controls_in_audit :=
                                                                     currentCompletedControlsCount,
                                                                   updated_at := now\<rparr>)
                                                        (audits st)\<rparr>)))
                            | a # collection # rest \<Rightarrow>
                                (case response_at st auditPath of
                                   None \<Rightarrow> (Inl NotFound, st)
                                 | Some responseReadAsAudit \<Rightarrow>
                                     let totalExpectedControls = 0;
                                         currentCompletedControlsCount = 0;
                                         newOverallProgress =
                                           overallProgress currentCompletedControlsCount
                                             totalExpectedControls;
                                         newOverallStatus = overallStatus newOverallProgress;
                                         responseKey =
                                           (a, join_path (rest @ [''responses''] @ controlPath))
                                     in (Inr (newOverallProgress, newOverallStatus),
                                         st\<lparr>responses :=
                                              AList.update (a, join_path rest)
                                                (responseReadAsAudit
                                                   \<lparr>summary_fields :=
                                                      Some (newOverallProgress, newOverallStatus,
                                                            currentCompletedControlsCount, now)\<rparr>)
                                                (AList.update responseKey
                                                   (set_merge (map_of (responses st) responseKey)
                                                      (stagedResponse cid qrs body now))
                                                   (responses st))\<rparr>))
                            | [] \<Rightarrow> (Inl ServerError, st)))
                  | _ \<Rightarrow> (Inl ServerError, st))))"

section \<open>Notions used to state the properties\<close>

text \<open>The three summary fields of an audit document.\<close>

definition summary_of :: "audit \<Rightarrow> nat \<times> string \<times> nat" where
  "summary_of a = (overall_score a, overall_status a, completed_controls_in_audit a)"


text \<open>
  The response recorded for an audit id and a control id: the document that
  \<^verbatim>\<open>db.collection('audits').doc(auditId).collection('responses').doc(controlId)\<close> addresses,
  \<open>None\<close> when there is none or when the ids address no document.
\<close>

definition recorded_response :: "store \<Rightarrow> string \<Rightarrow> string \<Rightarrow> response option" where
  "recorded_response st auditId controlId =
     (case doc_path auditId of
        None \<Rightarrow> None
      | Some auditPath \<Rightarrow>
          (case doc_path controlId of
             None \<Rightarrow> None
           | Some controlPath \<Rightarrow> response_at st (auditPath @ [''responses''] @ controlPath)))"

text \<open>
  Whether the document that \<^verbatim>\<open>db.collection('audits').doc(auditId)\<close> addresses exists:
  an audit for an id of one segment, a document below an audit's responses otherwise.
\<close>

definition addressed_audit_exists :: "store \<Rightarrow> string \<Rightarrow> bool" where
  "addressed_audit_exists st auditId =
     (case doc_path auditId of
        None \<Rightarrow> False
      | Some [k] \<Rightarrow> map_of (audits st) k \<noteq> None
      | Some path \<Rightarrow> response_at st path \<noteq> None)"


section \<open>Concrete stores and requests\<close>

text \<open>
  A catalog of one framework of type \<^verbatim>\<open>Cloud\<close> with one control of one question, the
  audit created over it, and the states and requests at which the properties below are
  evaluated.
\<close>

definition example_question :: question where
  "example_question =
     \<lparr>question_text = ''Is access logged?'', options = [(''a'', ''Yes''), (''b'', ''No'')]\<rparr>"

definition example_control :: control where
  "example_control = \<lparr>framework_id = ''f01'', questionnaires = Some [example_question]\<rparr>"


definition example_audit :: audit where
  "example_audit =
     \<lparr>title = JStr ''Audit'', description = JStr [], user_id = JStr ''u1'',
      domain_type = JStr ''Cloud'', frameworks_audited = [''f01''],
      overall_status = ''Not Started'', overall_score = 0, created_at = 5, updated_at = 5,
      total_controls_in_audit = 1, completed_controls_in_audit = 0,
      client_company_name = JStr ''ACME'', client_spoc_name = JNull,
      client_spoc_email = JNull, client_spoc_phone = JNull\<rparr>"

definition store_catalog :: store where
  "store_catalog =
     \<lparr>frameworks = [(''f01'', ''Cloud'')], controls = [(''c1'', example_control)],
      audits = [], responses = []\<rparr>"

text \<open>The store after \<^verbatim>\<open>POST /api/audits\<close> with \<open>example_request\<close> at time 5.\<close>

definition store_one_control :: store where
  "store_one_control =
     store_catalog\<lparr>audits := [(''a1'', example_audit)],
                   responses := [((''a1'', ''c1''), initialResponseData (''c1'', example_control))]\<rparr>"

definition answered_question :: "jsval \<Rightarrow> question_response" where
  "answered_question opt =
     \<lparr>question_index = 0, qr_question_text = ''Is access logged?'',
      selected_option = opt, option_text = JStr ''Yes''\<rparr>"

definition answered_response :: "jsval \<Rightarrow> response" where
  "answered_response opt =
     \<lparr>control_id = ''c1'', question_responses = [answered_question opt],
      compliance_status = JStr ''Yes'', justification_text = JStr ''reviewed'',
      maturity_level_selected = JNull, evidence_path = JNull, evidence_filename = JNull,
      ai_recommendation = JNull, response_date = JTime 6, summary_fields = None\<rparr>"

text \<open>A request that answers the question of control \<^verbatim>\<open>c1\<close> with verdict \<^verbatim>\<open>Yes\<close>.\<close>

definition body_answered :: response_request where
  "body_answered =
     \<lparr>body_control_id = JStr ''c1'',
      body_question_responses = Some [answered_question (JStr ''a'')],
      body_compliance_status = JStr ''Yes'', body_justification_text = JStr ''reviewed'',
      body_maturity_level_selected = JUndefined, body_evidence_path = JUndefined,
      body_evidence_filename = JUndefined, body_ai_recommendation = JUndefined\<rparr>"


text \<open>A request that changes the verdict of \<^verbatim>\<open>c1\<close> and supplies no other field.\<close>

definition body_status_only :: response_request where
  "body_status_only =
     \<lparr>body_control_id = JStr ''c1'',
      body_question_responses = Some [answered_question (JStr ''a'')],
      body_compliance_status = JStr ''No'', body_justification_text = JUndefined,
      body_maturity_level_selected = JUndefined, body_evidence_path = JUndefined,
      body_evidence_filename = JUndefined, body_ai_recommendation = JUndefined\<rparr>"


text \<open>
  A request whose \<^verbatim>\<open>control_id\<close> is a path of two segments, which addresses no document.
\<close>

definition body_two_segments :: response_request where
  "body_two_segments =
     \<lparr>body_control_id = JStr ''a/b'', body_question_responses = Some [],
      body_compliance_status = JUndefined, body_justification_text = JUndefined,
      body_maturity_level_selected = JUndefined, body_evidence_path = JUndefined,
      body_evidence_filename = JUndefined, body_ai_recommendation = JUndefined\<rparr>"

text \<open>
  A request whose \<^verbatim>\<open>control_id\<close> is a path of three segments, which addresses a document
  of a collection nested below the audit's responses.
\<close>

definition body_three_segments :: response_request where
  "body_three_segments =
     \<lparr>body_control_id = JStr ''a/b/c'', body_question_responses = Some [],
      body_compliance_status = JUndefined, body_justification_text = JUndefined,
      body_maturity_level_selected = JUndefined, body_evidence_path = JUndefined,
      body_evidence_filename = JUndefined, body_ai_recommendation = JUndefined\<rparr>"

text \<open>
  The store after \<open>body_answered\<close> was put at time 6 and the audit was read at time 7:
  the one control is complete and the summary says so.
\<close>

definition store_answered :: store where
  "store_answered =
     store_catalog\<lparr>audits := [(''a1'', example_audit\<lparr>overall_status := ''Completed'',
                                                     overall_score := 100,
                                                     updated_at := 7,
                                                     completed_controls_in_audit := 1\<rparr>)],
                   responses := [((''a1'', ''c1''), answered_response (JStr ''a''))]\<rparr>"

text \<open>
  \<open>store_answered\<close> after a second control was added to framework \<^verbatim>\<open>f01\<close> (as
  \<^verbatim>\<open>POST /api/seed-controls\<close> does): the audit's \<^verbatim>\<open>total_controls_in_audit\<close> is still 1.
\<close>

definition store_catalog_grown :: store where
  "store_catalog_grown =
     store_answered\<lparr>controls := [(''c1'', example_control), (''c2'', example_control)]\<rparr>"

text \<open>A catalog with eleven frameworks of type \<^verbatim>\<open>Cloud\<close>.\<close>

definition store_eleven_frameworks :: store where
  "store_eleven_frameworks =
     \<lparr>frameworks = map (\<lambda>i. (i, ''Cloud''))
        [''f01'', ''f02'', ''f03'', ''f04'', ''f05'', ''f06'', ''f07'', ''f08'', ''f09'', ''f10'',
         ''f11''],
      controls = [(''c1'', example_control)], audits = [], responses = []\<rparr>"

section \<open>Binary64 rounding: the error bound\<close>

lemma bitlen_rat_bounds:
  assumes "0 < a"
  shows "2 powi (bitlen a - 1) \<le> (of_int a :: rat)" and "(of_int a :: rat) < 2 powi bitlen a"
proof -
  from assms have b1: "1 \<le> bitlen a"
    by (simp add: bitlen_alt_def)
  from bitlen_bounds [OF assms]
  have lo: "2 ^ nat (bitlen a - 1) \<le> a" and hi: "a < 2 ^ nat (bitlen a)"
    by simp_all
  have "(2::rat) powi (bitlen a - 1) = 2 ^ nat (bitlen a - 1)"
    using b1 by (simp add: power_int_nonneg_exp)
  also have "\<dots> = of_int (2 ^ nat (bitlen a - 1))" by simp
  also have "\<dots> \<le> of_int a" using lo by (simp only: of_int_le_iff)
  finally show "2 powi (bitlen a - 1) \<le> (of_int a :: rat)" .
  have "(of_int a :: rat) < of_int (2 ^ nat (bitlen a))" using hi by (simp only: of_int_less_iff)
  also have "\<dots> = 2 ^ nat (bitlen a)" by simp
  also have "\<dots> = 2 powi bitlen a" using b1 by (simp add: power_int_nonneg_exp)
  finally show "(of_int a :: rat) < 2 powi bitlen a" .
qed

lemma binade_bounds:
  assumes "0 < x"
  shows "2 powi binade x \<le> x \<and> x < 2 powi (binade x + 1)"
proof -
  obtain a b where q: "quotient_of x = (a, b)" by (cases "quotient_of x")
  have bpos: "0 < b" using q by (rule quotient_of_denom_pos)
  have xeq: "x = of_int a / of_int b" using q by (rule quotient_of_div)
  have apos: "0 < a" using assms bpos xeq by (simp add: zero_less_divide_iff)
  define k where "k = bitlen a - bitlen b"
  have bx: "binade x = (if 2 powi k \<le> x then k else k - 1)"
    by (simp add: binade_def q k_def Let_def)
  have B: "(0::rat) < of_int b" using bpos by simp
  have up: "x < 2 powi (k + 1)"
  proof -
    have "x * of_int b = of_int a" using xeq B by simp
    also have "\<dots> < 2 powi bitlen a" by (rule bitlen_rat_bounds(2) [OF apos])
    also have "\<dots> = 2 powi (k + 1) * 2 powi (bitlen b - 1)"
      by (simp add: k_def flip: power_int_add)
    also have "\<dots> \<le> 2 powi (k + 1) * of_int b"
      using bitlen_rat_bounds(1) [OF bpos] by (simp add: mult_left_mono)
    finally show ?thesis using B by simp
  qed
  have lo: "2 powi (k - 1) \<le> x"
  proof -
    have "(2::rat) powi (k - 1) * of_int b \<le> 2 powi (k - 1) * 2 powi bitlen b"
      using bitlen_rat_bounds(2) [OF bpos] by (simp add: mult_left_mono)
    also have "\<dots> = 2 powi (bitlen a - 1)"
      by (simp add: k_def flip: power_int_add)
    also have "\<dots> \<le> of_int a" by (rule bitlen_rat_bounds(1) [OF apos])
    also have "\<dots> = x * of_int b" using xeq B by simp
    finally show ?thesis using B by simp
  qed
  show ?thesis
  proof (cases "2 powi k \<le> x")
    case True
    then show ?thesis using up bx by simp
  next
    case False
    then show ?thesis using lo bx by simp
  qed
qed

lemma roundTiesToEven_near: "\<bar>of_int (roundTiesToEven y) - y\<bar> \<le> 1 / 2"
proof -
  have "of_int \<lfloor>y\<rfloor> \<le> y" "y < of_int \<lfloor>y\<rfloor> + 1" by linarith+
  then show ?thesis
    by (auto simp add: roundTiesToEven_def Let_def)
qed

text \<open>Rounding to binary64 moves a positive value by at most half a unit in the last place.\<close>

lemma fl_error:
  assumes "0 < x"
  shows "\<bar>fl x - x\<bar> \<le> x / 2 ^ 53"
proof -
  define u :: rat where "u = 2 powi (binade x - 52)"
  have upos: "0 < u" by (simp add: u_def)
  have flx: "fl x = of_int (roundTiesToEven (x / u)) * u"
    using assms by (simp add: fl_def u_def Let_def)
  have "u * 2 ^ 52 = 2 powi binade x"
    by (simp add: u_def power_int_diff)
  also have "\<dots> \<le> x" using binade_bounds [OF assms] by simp
  finally have ux: "u * 2 ^ 52 \<le> x" .
  have "fl x - x = (of_int (roundTiesToEven (x / u)) - x / u) * u"
    using upos by (simp add: flx left_diff_distrib)
  then have "\<bar>fl x - x\<bar> = \<bar>of_int (roundTiesToEven (x / u)) - x / u\<bar> * u"
    using upos by (simp only: abs_mult abs_of_pos)
  also have "\<dots> \<le> 1 / 2 * u"
    using roundTiesToEven_near [of "x / u"] upos by (simp add: mult_right_mono)
  also have "\<dots> \<le> x / 2 ^ 53" using ux by simp
  finally show ?thesis .
qed

lemma fl_lower:
  assumes "0 < x"
  shows "x * (1 - 1 / 2 ^ 53) \<le> fl x"
proof -
  have "x - fl x \<le> x / 2 ^ 53" using fl_error [OF assms] by (simp only: abs_le_iff) simp
  then show ?thesis by (simp add: algebra_simps)
qed

lemma fl_upper:
  assumes "0 < x"
  shows "fl x \<le> x * (1 + 1 / 2 ^ 53)"
proof -
  have "fl x - x \<le> x / 2 ^ 53" using fl_error [OF assms] by (simp only: abs_le_iff)
  then show ?thesis by (simp add: algebra_simps)
qed

lemma fl_one: "fl 1 = 1"
  by code_simp

lemma fl_hundred: "fl 100 = 100"
  by code_simp

lemma Math_round_hundred: "Math_round 100 = 100"
  unfolding Math_round_def by (rule floor_unique) simp_all

text \<open>
  With fewer than 200 controls, a partly complete audit has a product strictly between
  the two values that round to 0 and to 100.
\<close>

lemma progress_interior:
  assumes "0 < c" "c < t" "t < 200"
  shows "1 / 2 \<le> js_mul (js_div (of_nat c) (of_nat t)) 100"
    and "js_mul (js_div (of_nat c) (of_nat t)) 100 < 199 / 2"
proof -
  define q :: rat where "q = of_nat c / of_nat t"
  define d where "d = fl q"
  have tpos: "(0::rat) < of_nat t" using assms by simp
  have n1: "t \<le> 199 * c" using assms by simp
  have n2: "199 * c \<le> 198 * t" using assms by simp
  have "(of_nat t :: rat) \<le> of_nat (199 * c)" using n1 by (simp only: of_nat_le_iff)
  then have qlo: "1 / 199 \<le> q" using tpos by (simp add: q_def pos_le_divide_eq)
  have "(of_nat (199 * c) :: rat) \<le> of_nat (198 * t)" using n2 by (simp only: of_nat_le_iff)
  then have qhi: "q \<le> 198 / 199" using tpos by (simp add: q_def pos_divide_le_eq)
  have qpos: "0 < q" using qlo by simp
  have dlo: "1 / 199 * (1 - 1 / 2 ^ 53) \<le> d"
  proof -
    have "1 / 199 * (1 - 1 / 2 ^ 53) \<le> q * (1 - 1 / 2 ^ 53)"
      using qlo by (intro mult_right_mono) simp_all
    also have "\<dots> \<le> d" unfolding d_def by (rule fl_lower [OF qpos])
    finally show ?thesis .
  qed
  have dhi: "d \<le> 198 / 199 * (1 + 1 / 2 ^ 53)"
  proof -
    have "d \<le> q * (1 + 1 / 2 ^ 53)" unfolding d_def by (rule fl_upper [OF qpos])
    also have "\<dots> \<le> 198 / 199 * (1 + 1 / 2 ^ 53)"
      using qhi by (intro mult_right_mono) simp_all
    finally show ?thesis .
  qed
  have dpos: "0 < d * 100" using dlo by simp
  have m: "js_mul (js_div (of_nat c) (of_nat t)) 100 = fl (d * 100)"
    by (simp add: js_mul_def js_div_def d_def q_def)
  have "(1::rat) / 2 \<le> 1 / 199 * (1 - 1 / 2 ^ 53) * 100 * (1 - 1 / 2 ^ 53)" by simp
  also have "\<dots> \<le> d * 100 * (1 - 1 / 2 ^ 53)" using dlo by simp
  also have "\<dots> \<le> fl (d * 100)" by (rule fl_lower [OF dpos])
  finally show "1 / 2 \<le> js_mul (js_div (of_nat c) (of_nat t)) 100" by (simp only: m)
  have "fl (d * 100) \<le> d * 100 * (1 + 1 / 2 ^ 53)" by (rule fl_upper [OF dpos])
  also have "\<dots> \<le> 198 / 199 * (1 + 1 / 2 ^ 53) * 100 * (1 + 1 / 2 ^ 53)" using dhi by simp
  also have "\<dots> < 199 / 2" by simp
  finally show "js_mul (js_div (of_nat c) (of_nat t)) 100 < 199 / 2" by (simp only: m)
qed

text \<open>
  The computed product is within \<open>2 ^ -44\<close> of the exact percentage, so for audits of
  fewer than \<open>2 ^ 32\<close> controls the score is the exact percentage rounded half up
  unless that percentage lies exactly halfway between two integers.
\<close>

lemma product_error:
  assumes "0 < c" "c \<le> t"
  shows "\<bar>js_mul (js_div (of_nat c) (of_nat t)) 100 - 100 * of_nat c / of_nat t\<bar> \<le> 1 / 2 ^ 44"
proof -
  define q :: rat where "q = of_nat c / of_nat t"
  define d where "d = fl q"
  define e :: rat where "e = 1 / 2 ^ 53"
  have tpos: "(0::rat) < of_nat t" using assms by simp
  have qpos: "0 < q" using assms by (simp add: q_def)
  have "(of_nat c :: rat) \<le> of_nat t" using assms(2) by (simp only: of_nat_le_iff)
  then have q1: "q \<le> 1" using tpos by (simp add: q_def pos_divide_le_eq)
  have epos: "0 < e" "e < 1" by (simp_all add: e_def)
  have dl: "q * (1 - e) \<le> d" unfolding d_def e_def by (rule fl_lower [OF qpos])
  have du: "d \<le> q * (1 + e)" unfolding d_def e_def by (rule fl_upper [OF qpos])
  have "0 < q * (1 - e)" using qpos epos by simp
  with dl have dpos: "0 < d * 100" by simp
  have ml: "d * 100 * (1 - e) \<le> fl (d * 100)" unfolding e_def by (rule fl_lower [OF dpos])
  have mu: "fl (d * 100) \<le> d * 100 * (1 + e)" unfolding e_def by (rule fl_upper [OF dpos])
  have m: "js_mul (js_div (of_nat c) (of_nat t)) 100 = fl (d * 100)"
    by (simp add: js_mul_def js_div_def d_def q_def)
  have x: "100 * of_nat c / of_nat t = 100 * q" by (simp add: q_def)
  have lo: "100 * q * (1 - e) * (1 - e) \<le> fl (d * 100)"
  proof -
    have "100 * q * (1 - e) * (1 - e) = q * (1 - e) * 100 * (1 - e)" by simp
    also have "\<dots> \<le> d * 100 * (1 - e)"
      using dl epos by (intro mult_right_mono) simp_all
    also have "\<dots> \<le> fl (d * 100)" by (rule ml)
    finally show ?thesis .
  qed
  have hi: "fl (d * 100) \<le> 100 * q * (1 + e) * (1 + e)"
  proof -
    have "fl (d * 100) \<le> d * 100 * (1 + e)" by (rule mu)
    also have "\<dots> \<le> q * (1 + e) * 100 * (1 + e)"
      using du epos by (intro mult_right_mono) simp_all
    also have "\<dots> = 100 * q * (1 + e) * (1 + e)" by simp
    finally show ?thesis .
  qed
  have b1: "100 * q - 100 * q * (1 - e) * (1 - e) \<le> 1 / 2 ^ 44"
  proof -
    have "100 * q - 100 * q * (1 - e) * (1 - e) = q * (100 * (2 * e - e * e))"
      by (simp add: algebra_simps)
    also have "\<dots> \<le> 1 * (100 * (2 * e - e * e))"
      using q1 by (intro mult_right_mono) (simp_all add: e_def)
    also have "\<dots> \<le> 1 / 2 ^ 44" by (simp add: e_def)
    finally show ?thesis .
  qed
  have b2: "100 * q * (1 + e) * (1 + e) - 100 * q \<le> 1 / 2 ^ 44"
  proof -
    have "100 * q * (1 + e) * (1 + e) - 100 * q = q * (100 * (2 * e + e * e))"
      by (simp add: algebra_simps)
    also have "\<dots> \<le> 1 * (100 * (2 * e + e * e))"
      using q1 by (intro mult_right_mono) (simp_all add: e_def)
    also have "\<dots> \<le> 1 / 2 ^ 44" by (simp add: e_def)
    finally show ?thesis .
  qed
  from lo hi b1 b2 show ?thesis
    unfolding m x by (simp only: abs_le_iff) linarith
qed

lemma overallProgress_agrees_off_ties:
  assumes "0 < t" "c \<le> t" "t < 2 ^ 32"
    and "(200 * c + t) mod (2 * t) \<noteq> 0"
  shows "overallProgress c t = spec_overallProgress c t"
proof (cases "c = 0")
  case True
  then show ?thesis using assms
    by (simp add: overallProgress_def spec_overallProgress_def js_mul_def js_div_def fl_def
        Math_round_def round_half_away_def)
next
  case False
  then have cpos: "0 < c" by simp
  define x :: rat where "x = 100 * of_nat c / of_nat t"
  define m where "m = js_mul (js_div (of_nat c) (of_nat t)) 100"
  define n where "n = (200 * c + t) div (2 * t)"
  define r where "r = (200 * c + t) mod (2 * t)"
  have tpos: "(0::rat) < of_nat t" using assms by simp
  have nr: "200 * c + t = n * (2 * t) + r"
    unfolding n_def r_def by (rule div_mult_mod_eq [symmetric])
  have r1: "1 \<le> r" using assms(4) by (simp add: r_def)
  have r2: "r + 1 \<le> 2 * t" using assms(1) by (simp add: r_def Suc_le_eq)
  have xh: "x + 1 / 2 = of_nat n + of_nat r / (2 * of_nat t)"
  proof -
    have "x + 1 / 2 = of_nat (200 * c + t) / (2 * of_nat t)"
      using tpos by (simp add: x_def field_simps)
    also have "\<dots> = of_nat (n * (2 * t) + r) / (2 * of_nat t)" by (simp only: nr)
    also have "\<dots> = of_nat n + of_nat r / (2 * of_nat t)"
      using tpos by (simp add: field_simps)
    finally show ?thesis .
  qed
  have t32: "2 * (of_nat t :: rat) \<le> 2 ^ 33"
  proof -
    have "2 * t \<le> 2 ^ 33" using assms(3) by simp
    then have "(of_nat (2 * t) :: rat) \<le> of_nat (2 ^ 33)" by (simp only: of_nat_le_iff)
    then show ?thesis by simp
  qed
  have inv: "1 / 2 ^ 33 \<le> 1 / (2 * (of_nat t :: rat))"
    using t32 tpos by (simp add: field_simps)
  have lo: "of_nat n + 1 / 2 ^ 33 \<le> x + 1 / 2"
  proof -
    have "(1::rat) \<le> of_nat r" using r1 by (simp add: Suc_le_eq flip: of_nat_Suc)
    then have "1 / (2 * of_nat t) \<le> of_nat r / (2 * (of_nat t :: rat))"
      using tpos by (simp add: divide_right_mono)
    with inv show ?thesis unfolding xh by linarith
  qed
  have hi: "x + 1 / 2 \<le> of_nat n + 1 - 1 / 2 ^ 33"
  proof -
    have "(of_nat (r + 1) :: rat) \<le> of_nat (2 * t)" using r2 by (simp only: of_nat_le_iff)
    then have "(of_nat r :: rat) \<le> 2 * of_nat t - 1" by simp
    then have "of_nat r / (2 * (of_nat t :: rat)) \<le> (2 * of_nat t - 1) / (2 * of_nat t)"
      using tpos by (simp add: divide_right_mono)
    also have "\<dots> = 1 - 1 / (2 * of_nat t)" using tpos by (simp add: field_simps)
    finally show ?thesis using inv unfolding xh by linarith
  qed
  have err: "\<bar>m - x\<bar> \<le> 1 / 2 ^ 44"
    unfolding m_def x_def by (rule product_error [OF cpos assms(2)])
  have "(1::rat) / 2 ^ 44 < 1 / 2 ^ 33" by simp
  with err lo hi have ml: "of_nat n \<le> m + 1 / 2" and mh: "m + 1 / 2 < of_nat n + 1"
    by (simp_all only: abs_le_iff) linarith+
  have fm: "\<lfloor>m + 1 / 2\<rfloor> = int n"
    using ml mh by (intro floor_unique) simp_all
  have fx: "\<lfloor>x + 1 / 2\<rfloor> = int n"
    using lo hi by (intro floor_unique) simp_all
  have xpos: "0 \<le> x" using tpos by (simp add: x_def)
  show ?thesis
    using assms(1) xpos fm fx
    by (simp add: overallProgress_def spec_overallProgress_def Math_round_def round_half_away_def
        m_def [symmetric] x_def [symmetric])
qed

section \<open>The chunked fetch\<close>

lemma slice_chunk_nonempty: "i < length ids \<Longrightarrow> slice ids i (i + chunkSize) \<noteq> []"
  by (simp add: slice_def chunkSize_def)

lemma slice_chunk_length: "length (slice ids i (i + chunkSize)) \<le> in_query_limit"
  by (simp add: slice_def chunkSize_def in_query_limit_def)

lemma drop_chunk_set:
  "set (drop i ids) = set (slice ids i (i + chunkSize)) \<union> set (drop (i + chunkSize) ids)"
proof -
  have "drop i ids = take chunkSize (drop i ids) @ drop chunkSize (drop i ids)"
    by (simp only: append_take_drop_id)
  then have "set (drop i ids)
               = set (take chunkSize (drop i ids)) \<union> set (drop chunkSize (drop i ids))"
    by (metis set_append)
  then show ?thesis
    by (simp add: slice_def add.commute)
qed

text \<open>Every query of the loop is within the store's limit, so none is rejected.\<close>

lemma chunk_query_ok:
  "i < length ids \<Longrightarrow>
   controls_where_framework_id_in st (slice ids i (i + chunkSize))
     = Inr (filter (\<lambda>(k, c). framework_id c \<in> set (slice ids i (i + chunkSize))) (controls st))"
  using slice_chunk_nonempty [of i ids] slice_chunk_length [of ids i]
  by (simp add: controls_where_framework_id_in_def)

lemma allControlsLoop_result:
  "\<exists>ds. allControlsLoop st ids i acc = Inr (acc @ ds)
        \<and> set ds = {(k, c). (k, c) \<in> set (controls st) \<and> framework_id c \<in> set (drop i ids)}"
proof (induction st ids i acc rule: allControlsLoop.induct)
  case (1 st ids i acc)
  show ?case
  proof (cases "i < length ids")
    case True
    let ?docs = "filter (\<lambda>(k, c). framework_id c \<in> set (slice ids i (i + chunkSize))) (controls st)"
    have q: "controls_where_framework_id_in st (slice ids i (i + chunkSize)) = Inr ?docs"
      by (rule chunk_query_ok [OF True])
    from "1.IH" [OF True q] obtain ds where
      ds: "allControlsLoop st ids (i + chunkSize) (acc @ ?docs) = Inr ((acc @ ?docs) @ ds)"
      and sds: "set ds = {(k, c). (k, c) \<in> set (controls st)
                           \<and> framework_id c \<in> set (drop (i + chunkSize) ids)}"
      by blast
    have "allControlsLoop st ids i acc = Inr (acc @ (?docs @ ds))"
      using True q ds by (subst allControlsLoop.simps) simp
    moreover have "set (?docs @ ds)
        = {(k, c). (k, c) \<in> set (controls st) \<and> framework_id c \<in> set (drop i ids)}"
      unfolding drop_chunk_set [of i ids] using sds by auto
    ultimately show ?thesis by blast
  next
    case False
    then have "allControlsLoop st ids i acc = Inr (acc @ [])"
      by (subst allControlsLoop.simps) simp
    moreover have "set (drop i ids) = {}" using False by simp
    ultimately show ?thesis by (intro exI [of _ "[]"]) simp
  qed
qed

lemma allControlsFor_result:
  "\<exists>ds. allControlsFor st ids = Inr ds
        \<and> set ds = {(k, c). (k, c) \<in> set (controls st) \<and> framework_id c \<in> set ids}"
  using allControlsLoop_result [of st ids 0 "[]"] by (simp add: allControlsFor_def)





section \<open>The count as a filter\<close>

lemma fold_completed_count:
  "fold (\<lambda>(docId, responseData) n.
             case controlDefinitionsMap cs (control_id responseData) of
               None \<Rightarrow> n
             | Some controlDefinition \<Rightarrow>
                 if controlComplete controlDefinition responseData then n + 1 else n) docs k
   = k + length (filter (\<lambda>(docId, r).
                case controlDefinitionsMap cs (control_id r) of
                  None \<Rightarrow> False
                | Some c \<Rightarrow> controlComplete c r) docs)"
  by (induction docs arbitrary: k) (auto split: option.splits if_splits)

lemma completedControlsCount_filter:
  "completedControlsCount cs docs =
     length (filter (\<lambda>(docId, r).
                case controlDefinitionsMap cs (control_id r) of
                  None \<Rightarrow> False
                | Some c \<Rightarrow> controlComplete c r) docs)"
  unfolding completedControlsCount_def by (simp only: fold_completed_count add_0)

section \<open>Document references\<close>

lemma doc_path_nonempty: "doc_path p = Some segs \<Longrightarrow> segs \<noteq> []"
  by (auto simp add: doc_path_def split: if_splits)

lemma split_no_slash:
  "CHR ''/'' \<notin> set p \<Longrightarrow>
   foldr (\<lambda>c acc. if c = CHR ''/'' then [] # acc
                    else (case acc of [] \<Rightarrow> [[c]] | segment # segments \<Rightarrow> (c # segment) # segments))
         p [[]] = [p]"
  by (induction p) auto

lemma has_double_slash_no_slash: "CHR ''/'' \<notin> set p \<Longrightarrow> \<not> has_double_slash p"
  by (induction p rule: has_double_slash.induct) auto

text \<open>A document id, a non-empty string without a slash, addresses the document of that id.\<close>

lemma doc_path_id: "p \<noteq> [] \<Longrightarrow> CHR ''/'' \<notin> set p \<Longrightarrow> doc_path p = Some [p]"
  by (simp add: doc_path_def path_segments_def split_no_slash has_double_slash_no_slash)

lemma join_path_append:
  "xs \<noteq> [] \<Longrightarrow> ys \<noteq> [] \<Longrightarrow> join_path (xs @ ys) = join_path xs @ ''/'' @ join_path ys"
proof (induction xs rule: join_path.induct)
  case (2 segment)
  then show ?case by (cases ys) simp_all
qed simp_all

lemma join_path_longer: "xs \<noteq> [] \<Longrightarrow> ys \<noteq> [] \<Longrightarrow> join_path xs \<noteq> join_path (xs @ ys)"
  by (simp add: join_path_append)

lemma response_key_direct:
  "controlPath \<noteq> [] \<Longrightarrow>
   response_key ([k] @ [''responses''] @ controlPath) = Some (k, join_path controlPath)"
  by (simp add: response_key_def)

lemma response_at_nested:
  "response_at st (a # collection # rest) = Some d \<Longrightarrow>
   collection = ''responses'' \<and> rest \<noteq> [] \<and> map_of (responses st) (a, join_path rest) = Some d"
  by (auto simp add: response_at_def response_key_def split: if_splits option.splits)

lemma response_key_nested:
  "response_key ((a # ''responses'' # rest) @ [''responses''] @ controlPath)
     = Some (a, join_path (rest @ [''responses''] @ controlPath))"
  by (simp add: response_key_def)

text \<open>For document ids, the recorded response and the addressed audit are the keyed ones.\<close>

lemma recorded_response_id:
  "auditId \<noteq> [] \<Longrightarrow> CHR ''/'' \<notin> set auditId \<Longrightarrow> controlId \<noteq> [] \<Longrightarrow> CHR ''/'' \<notin> set controlId
   \<Longrightarrow> recorded_response st auditId controlId = map_of (responses st) (auditId, controlId)"
  by (simp add: recorded_response_def doc_path_id response_at_def response_key_def)

lemma addressed_audit_exists_id:
  "auditId \<noteq> [] \<Longrightarrow> CHR ''/'' \<notin> set auditId
   \<Longrightarrow> addressed_audit_exists st auditId \<longleftrightarrow> map_of (audits st) auditId \<noteq> None"
  by (simp add: addressed_audit_exists_def doc_path_id)


section \<open>The handlers, case by case\<close>

lemma get_audit_found:
  assumes "map_of (audits st) auditId = Some a"
    and "allControlsFor st (frameworks_audited a) = Inr cs"
    and "c = completedControlsCount cs (responses_of st auditId)"
    and "p = overallProgress c (length cs)"
    and "s = overallStatus p"
  shows "get_audit st auditId now =
     (if summary_of a = (p, s, c) then (Inr (auditId, a, responses_of st auditId), st)
      else (Inr (auditId,
                 a\<lparr>overall_score := p, overall_status := s, completed_controls_in_audit := c\<rparr>,
                 responses_of st auditId),
            st\<lparr>audits := AList.update auditId
                   (a\<lparr>overall_score := p, overall_status := s,
                      completed_controls_in_audit := c, updated_at := now\<rparr>) (audits st)\<rparr>))"
  using assms by (auto simp add: get_audit_def Let_def summary_of_def)


lemma put_response_resolved:
  assumes "put_response st auditId body now = (Inr r, st')"
  shows "\<exists>cid qrs auditPath controlPath.
           body_control_id body = JStr cid \<and> body_question_responses body = Some qrs
           \<and> doc_path auditId = Some auditPath \<and> doc_path cid = Some controlPath"
proof -
  from assms obtain qrs where q: "body_question_responses body = Some qrs"
    by (auto simp add: put_response_def split: option.splits)
  from assms q obtain auditPath where a: "doc_path auditId = Some auditPath"
    by (auto simp add: put_response_def split: option.splits if_splits)
  from assms q a obtain cid where c: "body_control_id body = JStr cid"
    by (auto simp add: put_response_def split: jsval.splits if_splits)
  from assms q a c obtain controlPath where p: "doc_path cid = Some controlPath"
    by (auto simp add: put_response_def split: option.splits if_splits)
  from q a c p show ?thesis by simp
qed

text \<open>A successful upsert on an audit: the two documents written.\<close>

lemma put_response_on_audit:
  assumes "put_response st auditId body now = (Inr r, st')"
    and "doc_path auditId = Some [k]"
    and "body_control_id body = JStr cid"
    and "body_question_responses body = Some qrs"
    and "doc_path cid = Some controlPath"
  shows "responses st'
           = AList.update (k, join_path controlPath)
               (set_merge (map_of (responses st) (k, join_path controlPath))
                  (stagedResponse cid qrs body now))
               (responses st)
         \<and> (\<exists>a'. map_of (audits st') k = Some a' \<and> updated_at a' = now
                \<and> overall_score a' = fst r \<and> overall_status a' = snd r)"
  using assms
  by (auto simp add: put_response_def Let_def update_conv'
      split: option.splits sum.splits if_splits)

text \<open>A successful upsert whose audit id addresses a response document.\<close>

lemma put_response_below:
  assumes "put_response st auditId body now = (Inr r, st')"
    and "doc_path auditId = Some (a # collection # rest)"
    and "body_control_id body = JStr cid"
    and "body_question_responses body = Some qrs"
    and "doc_path cid = Some controlPath"
  shows "\<exists>d. response_at st (a # collection # rest) = Some d
           \<and> r = (0, ''Not Started'')
           \<and> audits st' = audits st
           \<and> responses st'
               = AList.update (a, join_path rest)
                   (d\<lparr>summary_fields := Some (0, ''Not Started'', 0, now)\<rparr>)
                   (AList.update (a, join_path (rest @ [''responses''] @ controlPath))
                      (set_merge
                         (map_of (responses st) (a, join_path (rest @ [''responses''] @ controlPath)))
                         (stagedResponse cid qrs body now))
                      (responses st))"
  using assms
  by (auto simp add: put_response_def Let_def overallProgress_def overallStatus_def
      split: option.splits if_splits)

text \<open>After a successful upsert the recorded response is the staged one, merged.\<close>

lemma put_response_recorded:
  assumes "put_response st auditId body now = (Inr r, st')"
    and "body_control_id body = JStr cid"
  shows "\<exists>qrs. body_question_responses body = Some qrs
           \<and> recorded_response st' auditId cid
               = Some (set_merge (recorded_response st auditId cid)
                         (stagedResponse cid qrs body now))"
proof -
  from put_response_resolved [OF assms(1)] assms(2) obtain qrs auditPath controlPath where
    q: "body_question_responses body = Some qrs"
    and ap: "doc_path auditId = Some auditPath"
    and cp: "doc_path cid = Some controlPath"
    by auto
  have ne: "controlPath \<noteq> []" using cp by (rule doc_path_nonempty)
  have ane: "auditPath \<noteq> []" using ap by (rule doc_path_nonempty)
  have "recorded_response st' auditId cid
          = Some (set_merge (recorded_response st auditId cid) (stagedResponse cid qrs body now))"
  proof (cases auditPath)
    case Nil
    with ane show ?thesis by simp
  next
    case (Cons k tail)
    show ?thesis
    proof (cases tail)
      case Nil
      with Cons ap have ap1: "doc_path auditId = Some [k]" by simp
      from put_response_on_audit [OF assms(1) ap1 assms(2) q cp]
      have rs: "responses st'
                  = AList.update (k, join_path controlPath)
                      (set_merge (map_of (responses st) (k, join_path controlPath))
                         (stagedResponse cid qrs body now))
                      (responses st)"
        by (rule conjunct1)
      have key: "response_key ([k] @ [''responses''] @ controlPath) = Some (k, join_path controlPath)"
        using ne by (rule response_key_direct)
      show ?thesis
        using key by (simp add: recorded_response_def ap1 cp response_at_def rs update_conv')
    next
      case (Cons collection rest)
      with \<open>auditPath = k # tail\<close> ap
      have ap2: "doc_path auditId = Some (k # collection # rest)" by simp
      from put_response_below [OF assms(1) ap2 assms(2) q cp] obtain d where
        d: "response_at st (k # collection # rest) = Some d"
        and rs: "responses st'
                   = AList.update (k, join_path rest)
                       (d\<lparr>summary_fields := Some (0, ''Not Started'', 0, now)\<rparr>)
                       (AList.update (k, join_path (rest @ [''responses''] @ controlPath))
                          (set_merge
                             (map_of (responses st)
                                (k, join_path (rest @ [''responses''] @ controlPath)))
                             (stagedResponse cid qrs body now))
                          (responses st))"
        by auto
      from response_at_nested [OF d] have col: "collection = ''responses''" and rne: "rest \<noteq> []"
        by simp_all
      have other: "join_path rest \<noteq> join_path (rest @ [''responses''] @ controlPath)"
        using rne by (rule join_path_longer) simp
      have key: "response_key ((k # collection # rest) @ [''responses''] @ controlPath)
                   = Some (k, join_path (rest @ [''responses''] @ controlPath))"
        unfolding col by (rule response_key_nested)
      show ?thesis
        using key other
        by (simp add: recorded_response_def ap2 cp response_at_def rs update_conv')
    qed
  qed
  with q show ?thesis by simp
qed




section \<open>Batches of writes to an association list\<close>






section \<open>The initial question responses\<close>




section \<open>The concrete stores are states of the system\<close>



lemma get_audit_example:
  "snd (get_audit (snd (put_response store_one_control ''a1'' body_answered 6)) ''a1'' 7)
     = store_answered"
  by code_simp

text \<open>
  A \<^verbatim>\<open>control_id\<close> of two segments addresses no document: the request is answered with
  500 and nothing is written. One of three segments addresses a document of a collection
  nested below the audit's responses: the request succeeds, the document is not among
  those that a read of the audit lists, and \<^verbatim>\<open>GET /api/audits/:auditId/responses/:controlId\<close>
  with the same path finds it, under the id \<^verbatim>\<open>c\<close>.
\<close>

lemma put_response_two_segments:
  "put_response store_one_control ''a1'' body_two_segments 9 = (Inl ServerError, store_one_control)"
  by code_simp

lemma put_response_three_segments:
  "fst (put_response store_one_control ''a1'' body_three_segments 9) = Inr (0, ''Not Started'')
   \<and> map fst (responses (snd (put_response store_one_control ''a1'' body_three_segments 9)))
       = [(''a1'', ''c1''), (''a1'', ''a/b/c'')]
   \<and> map fst (responses_of (snd (put_response store_one_control ''a1'' body_three_segments 9)) ''a1'')
       = [''c1'']
   \<and> map_sum id fst
        (get_response (snd (put_response store_one_control ''a1'' body_three_segments 9))
           ''a1'' ''a/b/c'')
       = Inr (JStr ''c'')"
  by code_simp

text \<open>
  An audit id that addresses the response document of \<^verbatim>\<open>c1\<close>: the request succeeds with
  progress 0, the response is written below that document, which receives the summary
  fields, and the audit document is not written.
\<close>

lemma put_response_below_response:
  "fst (put_response store_one_control ''a1/responses/c1'' body_answered 9)
     = Inr (0, ''Not Started'')
   \<and> map fst (responses (snd (put_response store_one_control ''a1/responses/c1'' body_answered 9)))
       = [(''a1'', ''c1''), (''a1'', ''c1/responses/c1'')]
   \<and> map_option summary_fields
        (map_of (responses (snd (put_response store_one_control ''a1/responses/c1'' body_answered 9)))
           (''a1'', ''c1''))
       = Some (Some (0, ''Not Started'', 0, 9))
   \<and> audits (snd (put_response store_one_control ''a1/responses/c1'' body_answered 9))
       = audits store_one_control"
  by code_simp

section \<open>Reconciliation on read and on write (C1)\<close>




section \<open>The completeness predicate (C2)\<close>

text \<open>
  C2, as the code has it. The count of completed controls is the number of response
  documents whose control is among the fetched definitions, has at least one question,
  has as many question responses with a truthy \<^verbatim>\<open>selected_option\<close> as it has questions, and
  whose \<^verbatim>\<open>compliance_status\<close> is one of \<^verbatim>\<open>Yes\<close>, \<^verbatim>\<open>Partial\<close>, \<^verbatim>\<open>No\<close>, \<^verbatim>\<open>Not Applicable\<close>. A
  selection counts when it is truthy, which is narrower than non-null: the empty string,
  0 and \<^verbatim>\<open>false\<close> are not null and do not count. A response whose control has no question
  never adds to the count, whatever its \<^verbatim>\<open>compliance_status\<close>.
\<close>

theorem completedControlsCount_truthy:
  "completedControlsCount cs docs =
     length (filter (\<lambda>(docId, r).
                \<exists>c qs. controlDefinitionsMap cs (control_id r) = Some c
                  \<and> questionnaires c = Some qs
                  \<and> 0 < length qs
                  \<and> length (filter (\<lambda>qr. truthy (selected_option qr)) (question_responses r))
                      = length qs
                  \<and> compliance_status r
                       \<in> {JStr ''Yes'', JStr ''Partial'', JStr ''No'', JStr ''Not Applicable''})
             docs)
   \<and> (controlDefinitionsMap cs (control_id resp) = Some ctl
        \<and> (questionnaires ctl = None \<or> questionnaires ctl = Some [])
      \<longrightarrow> completedControlsCount cs (docs @ [(docKey, resp)]) = completedControlsCount cs docs)"
proof (intro conjI impI)
  have eq: "(\<lambda>(docId, r). case controlDefinitionsMap cs (control_id r) of
                  None \<Rightarrow> False | Some c \<Rightarrow> controlComplete c r)
       = (\<lambda>(docId, r). \<exists>c qs. controlDefinitionsMap cs (control_id r) = Some c
                  \<and> questionnaires c = Some qs
                  \<and> 0 < length qs
                  \<and> length (filter (\<lambda>qr. truthy (selected_option qr)) (question_responses r))
                      = length qs
                  \<and> compliance_status r
                       \<in> {JStr ''Yes'', JStr ''Partial'', JStr ''No'', JStr ''Not Applicable''})"
    by (auto simp add: fun_eq_iff controlComplete_def Let_def split: option.splits)
  show "completedControlsCount cs docs =
     length (filter (\<lambda>(docId, r).
                \<exists>c qs. controlDefinitionsMap cs (control_id r) = Some c
                  \<and> questionnaires c = Some qs
                  \<and> 0 < length qs
                  \<and> length (filter (\<lambda>qr. truthy (selected_option qr)) (question_responses r))
                      = length qs
                  \<and> compliance_status r
                       \<in> {JStr ''Yes'', JStr ''Partial'', JStr ''No'', JStr ''Not Applicable''})
             docs)"
    by (simp only: completedControlsCount_filter eq)
next
  assume z: "controlDefinitionsMap cs (control_id resp) = Some ctl
        \<and> (questionnaires ctl = None \<or> questionnaires ctl = Some [])"
  then have "\<not> controlComplete ctl resp"
    by (auto simp add: controlComplete_def)
  with z show "completedControlsCount cs (docs @ [(docKey, resp)]) = completedControlsCount cs docs"
    by (simp add: completedControlsCount_filter)
qed

text \<open>
  The theorem at a control without questions: its answered response with verdict
  \<^verbatim>\<open>Yes\<close> leaves the count at 0.
\<close>

theorem completedControlsCount_truthy_witness:
  "controlDefinitionsMap [(''c1'', example_control\<lparr>questionnaires := Some []\<rparr>)]
       (control_id (answered_response (JStr ''a'')))
     = Some (example_control\<lparr>questionnaires := Some []\<rparr>)
   \<and> compliance_status (answered_response (JStr ''a'')) = JStr ''Yes''
   \<and> completedControlsCount [(''c1'', example_control\<lparr>questionnaires := Some []\<rparr>)]
        [(''c1'', answered_response (JStr ''a''))] = 0"
proof -
  have h: "controlDefinitionsMap [(''c1'', example_control\<lparr>questionnaires := Some []\<rparr>)]
       (control_id (answered_response (JStr ''a'')))
     = Some (example_control\<lparr>questionnaires := Some []\<rparr>)"
    by code_simp
  have q: "questionnaires (example_control\<lparr>questionnaires := Some []\<rparr>) = Some []"
    by simp
  have s: "compliance_status (answered_response (JStr ''a'')) = JStr ''Yes''"
    by (simp add: answered_response_def)
  have e: "completedControlsCount [(''c1'', example_control\<lparr>questionnaires := Some []\<rparr>)] [] = 0"
    by (simp add: completedControlsCount_def)
  from completedControlsCount_truthy
    [where cs = "[(''c1'', example_control\<lparr>questionnaires := Some []\<rparr>)]" and docs = "[]"
       and resp = "answered_response (JStr ''a'')"
       and ctl = "example_control\<lparr>questionnaires := Some []\<rparr>" and docKey = "''c1''"]
    h q e
  have "completedControlsCount [(''c1'', example_control\<lparr>questionnaires := Some []\<rparr>)]
        [(''c1'', answered_response (JStr ''a''))] = 0"
    by simp
  with h s show ?thesis by blast
qed

text \<open>
  The claim as stated, with ``non-null'', fails: for the one-question control, a response
  whose selection is the empty string (or the number 0) has a non-null selection for
  every question and the verdict \<^verbatim>\<open>Yes\<close>, so the specification's predicate holds of it, and
  the code does not count it. With the selection \<^verbatim>\<open>a\<close> it is counted.
\<close>

theorem falsy_selection_not_counted:
  "spec_isComplete example_control (answered_response (JStr []))
   \<and> \<not> controlComplete example_control (answered_response (JStr []))
   \<and> completedControlsCount [(''c1'', example_control)] [(''c1'', answered_response (JStr []))] = 0
   \<and> spec_isComplete example_control (answered_response (JNum 0))
   \<and> completedControlsCount [(''c1'', example_control)] [(''c1'', answered_response (JNum 0))] = 0
   \<and> completedControlsCount [(''c1'', example_control)] [(''c1'', answered_response (JStr ''a''))] = 1"
  by code_simp

section \<open>The denominator of the percentage (C3)\<close>

text \<open>
  C3. The claim is that every reconciliation divides by the audit's stored
  \<^verbatim>\<open>total_controls_in_audit\<close>. The write path does; the read path divides by the number of
  controls it has just fetched for the audited frameworks (line 300), and leaves
  \<^verbatim>\<open>total_controls_in_audit\<close> as it is. The theorem states what the read path computes.
\<close>

theorem get_audit_denominator:
  assumes "map_of (audits st) auditId = Some a"
    and "allControlsFor st (frameworks_audited a) = Inr cs"
  shows "\<exists>a' docs. fst (get_audit st auditId now) = Inr (auditId, a', docs)
           \<and> overall_score a'
               = overallProgress (completedControlsCount cs (responses_of st auditId)) (length cs)
           \<and> total_controls_in_audit a' = total_controls_in_audit a"
  using get_audit_found [OF assms refl refl refl, of now] by (auto simp add: summary_of_def)

text \<open>
  In \<open>store_catalog_grown\<close> the audit has \<^verbatim>\<open>total_controls_in_audit = 1\<close> and its one
  response is complete, and the catalog now holds two controls of the audited framework.
  Reading the audit gives the score 50 (1 of 2); the write path, on the same store,
  reports 100 (1 of 1).
\<close>

theorem get_audit_denominator_witness:
  "map_option total_controls_in_audit (map_of (audits store_catalog_grown) ''a1'') = Some 1
   \<and> (\<exists>a' docs. fst (get_audit store_catalog_grown ''a1'' 8) = Inr (''a1'', a', docs)
         \<and> overall_score a' = 50 \<and> total_controls_in_audit a' = 1)
   \<and> fst (put_response store_catalog_grown ''a1'' body_answered 8) = Inr (100, ''Completed'')"
proof -
  let ?a = "example_audit\<lparr>overall_status := ''Completed'', overall_score := 100,
                          updated_at := 7, completed_controls_in_audit := 1\<rparr>"
  let ?cs = "[(''c1'', example_control), (''c2'', example_control)]"
  have h1: "map_of (audits store_catalog_grown) ''a1'' = Some ?a"
    by code_simp
  have h2: "allControlsFor store_catalog_grown (frameworks_audited ?a) = Inr ?cs"
    by code_simp
  have v: "overallProgress (completedControlsCount ?cs (responses_of store_catalog_grown ''a1''))
             (length ?cs) = 50"
    by code_simp
  have t: "total_controls_in_audit ?a = 1"
    by code_simp
  have p: "fst (put_response store_catalog_grown ''a1'' body_answered 8) = Inr (100, ''Completed'')"
    by code_simp
  from get_audit_denominator [OF h1 h2, of 8] v t
  have "\<exists>a' docs. fst (get_audit store_catalog_grown ''a1'' 8) = Inr (''a1'', a', docs)
         \<and> overall_score a' = 50 \<and> total_controls_in_audit a' = 1"
    by simp
  moreover have "map_option total_controls_in_audit (map_of (audits store_catalog_grown) ''a1'') = Some 1"
    using h1 t by simp
  ultimately show ?thesis using p by blast
qed

section \<open>Rounding of the percentage (C4, C5)\<close>

lemma overallStatus_thresholds:
  "(overallStatus p = ''Not Started'' \<longleftrightarrow> p = 0)
   \<and> (overallStatus p = ''Completed'' \<longleftrightarrow> p = 100)
   \<and> (overallStatus p = ''In Progress'' \<longleftrightarrow> p \<noteq> 0 \<and> p \<noteq> 100)"
  by (simp add: overallStatus_def)

text \<open>
  C4. The specification gives the percentage as
  \<open>round (100 * completedCount / totalExpectedControls)\<close>, rounding half away from zero.
  The handlers compute \<open>(completedCount / totalExpectedControls) * 100\<close> in binary64
  arithmetic instead: with 23 of 40 controls complete the quotient \<open>0.575\<close> is not
  representable, the product comes out just below \<open>57.5\<close>, and the score is 57 where the
  specification's formula gives 58. The two worked examples of the specification (1 of 3
  and 2 of 3) and the zero denominator agree with the code, as does every percentage that
  is not an exact tie (lemma \<open>overallProgress_agrees_off_ties\<close>); the status follows the
  thresholds of the specification for every score from 0 to 100
  (lemma \<open>overallStatus_thresholds\<close>).
\<close>

theorem overallProgress_tie_23_of_40:
  "overallProgress 23 40 = 57 \<and> spec_overallProgress 23 40 = 58
   \<and> js_mul (js_div 23 40) 100 < 115 / 2
   \<and> overallProgress 1 3 = 33 \<and> overallProgress 2 3 = 67 \<and> overallProgress 5 0 = 0"
  by code_simp

text \<open>
  C5, as the code has it. For an audit of fewer than 200 controls, with
  \<open>0 \<le> completedCount \<le> totalExpectedControls\<close>, the score is 100 only when every control
  is complete and 0 only when none is. From 200 controls on, rounding reaches both
  boundary values from a partly complete audit.
\<close>

theorem overallProgress_boundaries:
  assumes "0 < totalExpectedControls" and "totalExpectedControls < 200"
    and "completedCount \<le> totalExpectedControls"
  shows "(overallProgress completedCount totalExpectedControls = 100
            \<longleftrightarrow> completedCount = totalExpectedControls)
       \<and> (overallProgress completedCount totalExpectedControls = 0 \<longleftrightarrow> completedCount = 0)"
proof -
  consider "completedCount = 0" | "completedCount = totalExpectedControls"
    | "0 < completedCount" "completedCount < totalExpectedControls"
    using assms by linarith
  then show ?thesis
  proof cases
    case 1
    then show ?thesis using assms
      by (simp add: overallProgress_def js_mul_def js_div_def fl_def Math_round_def)
  next
    case 2
    then show ?thesis using assms
      by (simp add: overallProgress_def js_mul_def js_div_def fl_one fl_hundred Math_round_hundred)
  next
    case 3
    let ?m = "js_mul (js_div (of_nat completedCount) (of_nat totalExpectedControls)) 100"
    from progress_interior [OF 3 assms(2)] have "1 / 2 \<le> ?m" "?m < 199 / 2" by simp_all
    then have "1 \<le> Math_round ?m" "Math_round ?m \<le> 99"
      unfolding Math_round_def by linarith+
    then show ?thesis using 3 assms by (simp add: overallProgress_def)
  qed
qed

theorem overallProgress_boundaries_witness:
  "(0::nat) < 199 \<and> (199::nat) < 200 \<and> (198::nat) \<le> 199
   \<and> overallProgress 198 199 \<noteq> 100 \<and> overallProgress 198 199 \<noteq> 0"
  using overallProgress_boundaries [of 199 198] by simp

text \<open>
  The claim as stated, for every audit size, fails: 199 of 200 controls give the score
  100, and 1 of 201 gives 0 while 200 of 201 give 100.
\<close>

theorem overallProgress_boundary_reached:
  "overallProgress 199 200 = 100 \<and> overallProgress 1 201 = 0 \<and> overallProgress 200 201 = 100"
  by code_simp

section \<open>Membership queries (C6)\<close>

text \<open>
  C6. The claim is that every lookup of controls by framework membership is split into
  queries of at most ten ids. The loop shared by audit creation, audit read, response
  write and the two reports is (lemma \<open>chunk_query_ok\<close>), but
  \<^verbatim>\<open>GET /api/frameworks/:type/controls\<close> passes all framework ids of the type in one query
  (line 124, under a comment that names the limit): with more than ten frameworks of the
  type the store rejects the query and the request fails, where the chunked loop over the
  same ids succeeds.
\<close>

theorem get_type_controls_unchunked:
  assumes "in_query_limit < length (frameworks_where_type st (JStr t))"
  shows "get_type_controls st t = Inl ServerError
       \<and> (\<exists>cs. allControlsFor st (frameworks_where_type st (JStr t)) = Inr cs)"
proof -
  from assms have "frameworks_where_type st (JStr t) \<noteq> []" by auto
  with assms have "get_type_controls st t = Inl ServerError"
    by (simp add: get_type_controls_def controls_where_framework_id_in_def)
  moreover have "\<exists>cs. allControlsFor st (frameworks_where_type st (JStr t)) = Inr cs"
    using allControlsFor_result [of st "frameworks_where_type st (JStr t)"] by blast
  ultimately show ?thesis by blast
qed

text \<open>Eleven frameworks of type \<^verbatim>\<open>Cloud\<close>: one query of eleven values, answered with 500.\<close>

theorem get_type_controls_unchunked_witness:
  "length (frameworks_where_type store_eleven_frameworks (JStr ''Cloud'')) = 11
   \<and> get_type_controls store_eleven_frameworks ''Cloud'' = Inl ServerError
   \<and> allControlsFor store_eleven_frameworks
        (frameworks_where_type store_eleven_frameworks (JStr ''Cloud''))
       = Inr [(''c1'', example_control)]"
proof -
  have n: "length (frameworks_where_type store_eleven_frameworks (JStr ''Cloud'')) = 11"
    by code_simp
  then have "in_query_limit < length (frameworks_where_type store_eleven_frameworks (JStr ''Cloud''))"
    by (simp add: in_query_limit_def)
  from get_type_controls_unchunked [OF this]
  have "get_type_controls store_eleven_frameworks ''Cloud'' = Inl ServerError"
    by (rule conjunct1)
  moreover have "allControlsFor store_eleven_frameworks
        (frameworks_where_type store_eleven_frameworks (JStr ''Cloud''))
       = Inr [(''c1'', example_control)]"
    by code_simp
  ultimately show ?thesis using n by blast
qed

section \<open>The response upsert (C7, C8, C10)\<close>

text \<open>
  C7. The claim is partial-update semantics: a field the request does not supply stays as
  stored, a field supplied as null is stored as null. The handler passes
  \<^verbatim>\<open>{ merge: true }\<close> (``Merge to update specific fields''), but the document it writes
  always names all six fields, each as \<^verbatim>\<open>field || null\<close> (\<^verbatim>\<open>|| 'Not Answered'\<close> for
  \<^verbatim>\<open>compliance_status\<close>): after a successful request every one of the six fields of the
  recorded response is the supplied value when that is truthy and the default otherwise,
  whatever was stored.
\<close>

theorem put_response_overwrites_fields:
  assumes "put_response st auditId body now = (Inr r, st')"
    and "body_control_id body = JStr cid"
  shows "\<exists>resp. recorded_response st' auditId cid = Some resp
           \<and> compliance_status resp = js_or (body_compliance_status body) (JStr ''Not Answered'')
           \<and> justification_text resp = js_or (body_justification_text body) JNull
           \<and> maturity_level_selected resp = js_or (body_maturity_level_selected body) JNull
           \<and> evidence_path resp = js_or (body_evidence_path body) JNull
           \<and> evidence_filename resp = js_or (body_evidence_filename body) JNull
           \<and> ai_recommendation resp = js_or (body_ai_recommendation body) JNull"
proof -
  from put_response_recorded [OF assms] obtain qrs where
    "recorded_response st' auditId cid
       = Some (set_merge (recorded_response st auditId cid) (stagedResponse cid qrs body now))"
    by auto
  then show ?thesis
    by (simp add: set_merge_def stagedResponse_def split: option.splits)
qed

text \<open>
  In \<open>store_answered\<close> the response of \<^verbatim>\<open>c1\<close> has the justification \<^verbatim>\<open>reviewed\<close>. A request
  that changes the verdict and does not supply \<^verbatim>\<open>justification_text\<close> leaves the stored
  justification null.
\<close>

theorem put_response_overwrites_fields_witness:
  "map_option justification_text (map_of (responses store_answered) (''a1'', ''c1''))
     = Some (JStr ''reviewed'')
   \<and> body_justification_text body_status_only = JUndefined
   \<and> fst (put_response store_answered ''a1'' body_status_only 8) = Inr (100, ''Completed'')
   \<and> map_option justification_text
        (map_of (responses (snd (put_response store_answered ''a1'' body_status_only 8)))
           (''a1'', ''c1''))
       = Some JNull"
proof -
  let ?st' = "snd (put_response store_answered ''a1'' body_status_only 8)"
  have b: "map_option justification_text (map_of (responses store_answered) (''a1'', ''c1''))
             = Some (JStr ''reviewed'')"
    by code_simp
  have u: "body_justification_text body_status_only = JUndefined"
    by (simp add: body_status_only_def)
  have f: "fst (put_response store_answered ''a1'' body_status_only 8) = Inr (100, ''Completed'')"
    by code_simp
  then have p: "put_response store_answered ''a1'' body_status_only 8 = (Inr (100, ''Completed''), ?st')"
    by (simp add: prod_eq_iff)
  have c: "body_control_id body_status_only = JStr ''c1''"
    by (simp add: body_status_only_def)
  have j: "js_or (body_justification_text body_status_only) JNull = JNull"
    by (simp add: u js_or_def)
  have k: "recorded_response ?st' ''a1'' ''c1'' = map_of (responses ?st') (''a1'', ''c1'')"
    by (rule recorded_response_id) simp_all
  from put_response_overwrites_fields [OF p c]
  have "map_option justification_text (recorded_response ?st' ''a1'' ''c1'')
          = Some (js_or (body_justification_text body_status_only) JNull)"
    by (elim exE conjE) simp
  then have a: "map_option justification_text (map_of (responses ?st') (''a1'', ''c1'')) = Some JNull"
    by (simp only: j k)
  show ?thesis
    by (intro conjI) (rule b, rule u, rule f, rule a)
qed







section \<open>Reading a response that is not recorded (C9)\<close>




end
